theory Spec2Isabelle
  imports Complex_Main
begin

section \<open>Floating-point values\<close>

text \<open>
  Both programs compute on C++ \<open>float\<close> and \<open>double\<close> values.  A value is a real number, one
  of the two infinities, or a NaN.  The operations below follow IEEE 754 on the special values
  (division by zero, logarithm of zero and of a negative number, comparisons with NaN).  On
  finite values they are the exact real operations: rounding to binary32 or binary64 is not
  part of this model, and \<open>Fin 0\<close> stands for the positive zero (no operation of these
  programs produces a negative zero).
\<close>

datatype fval = Fin real | PInf | NInf | NaN

fun fsub :: "fval \<Rightarrow> fval \<Rightarrow> fval" where
  "fsub (Fin x) (Fin y) = Fin (x - y)"
| "fsub NaN _ = NaN"
| "fsub _ NaN = NaN"
| "fsub PInf PInf = NaN"
| "fsub NInf NInf = NaN"
| "fsub PInf _ = PInf"
| "fsub NInf _ = NInf"
| "fsub (Fin x) PInf = NInf"
| "fsub (Fin x) NInf = PInf"

fun fmul :: "fval \<Rightarrow> fval \<Rightarrow> fval" where
  "fmul (Fin x) (Fin y) = Fin (x * y)"
| "fmul NaN _ = NaN"
| "fmul _ NaN = NaN"
| "fmul (Fin x) PInf = (if x = 0 then NaN else if 0 < x then PInf else NInf)"
| "fmul (Fin x) NInf = (if x = 0 then NaN else if 0 < x then NInf else PInf)"
| "fmul PInf (Fin y) = (if y = 0 then NaN else if 0 < y then PInf else NInf)"
| "fmul NInf (Fin y) = (if y = 0 then NaN else if 0 < y then NInf else PInf)"
| "fmul PInf PInf = PInf"
| "fmul NInf NInf = PInf"
| "fmul PInf NInf = NInf"
| "fmul NInf PInf = NInf"

fun fdiv :: "fval \<Rightarrow> fval \<Rightarrow> fval" where
  "fdiv (Fin x) (Fin y) =
     (if y \<noteq> 0 then Fin (x / y)
      else if x = 0 then NaN
      else if 0 < x then PInf else NInf)"
| "fdiv NaN _ = NaN"
| "fdiv _ NaN = NaN"
| "fdiv (Fin x) PInf = Fin 0"
| "fdiv (Fin x) NInf = Fin 0"
| "fdiv PInf (Fin y) = (if 0 \<le> y then PInf else NInf)"
| "fdiv NInf (Fin y) = (if 0 \<le> y then NInf else PInf)"
| "fdiv PInf _ = NaN"
| "fdiv NInf _ = NaN"

text \<open>The natural logarithm of \<open>cmath\<close>: \<open>log(0)\<close> is minus infinity, \<open>log\<close> of a negative
  number is a NaN, \<open>log\<close> of plus infinity is plus infinity.\<close>

fun flog :: "fval \<Rightarrow> fval" where
  "flog (Fin x) = (if 0 < x then Fin (ln x) else if x = 0 then NInf else NaN)"
| "flog PInf = PInf"
| "flog NInf = NaN"
| "flog NaN = NaN"

text \<open>The comparison \<open>a < b\<close>; it is false as soon as one side is a NaN.  The source's
  \<open>a > b\<close> is \<open>fless b a\<close>.\<close>

fun fless :: "fval \<Rightarrow> fval \<Rightarrow> bool" where
  "fless (Fin x) (Fin y) = (x < y)"
| "fless NaN _ = False"
| "fless _ NaN = False"
| "fless PInf _ = False"
| "fless _ NInf = False"
| "fless NInf _ = True"
| "fless (Fin x) PInf = True"

definition fgreater :: "fval \<Rightarrow> fval \<Rightarrow> bool" where
  "fgreater a b = fless b a"

text \<open>\<open>a <= b\<close> and \<open>a >= b\<close>, used to state the clamping policy.\<close>

fun fle :: "fval \<Rightarrow> fval \<Rightarrow> bool" where
  "fle (Fin x) (Fin y) = (x \<le> y)"
| "fle NaN _ = False"
| "fle _ NaN = False"
| "fle NInf _ = True"
| "fle _ PInf = True"
| "fle PInf _ = False"
| "fle (Fin x) NInf = False"

definition fge :: "fval \<Rightarrow> fval \<Rightarrow> bool" where
  "fge a b = fle b a"

text \<open>Conversion of an \<open>int\<close> to \<open>float\<close>.\<close>

definition float_of_int :: "int \<Rightarrow> fval" where
  "float_of_int i = Fin (of_int i)"

text \<open>Truncation toward zero.\<close>

definition trunc :: "real \<Rightarrow> int" where
  "trunc x = (if 0 \<le> x then \<lfloor>x\<rfloor> else \<lceil>x\<rceil>)"

definition INT_MIN :: int where
  "INT_MIN = - 2147483648"

definition INT_MAX :: int where
  "INT_MAX = 2147483647"

text \<open>\<open>static_cast<int>\<close> of a floating-point value truncates toward zero.  The behaviour is
  undefined when the truncated value does not fit an \<open>int\<close>, which includes the infinities
  and NaN: the model returns \<open>None\<close> there.\<close>

fun static_cast_int :: "fval \<Rightarrow> int option" where
  "static_cast_int (Fin x) =
     (if INT_MIN \<le> trunc x \<and> trunc x \<le> INT_MAX then Some (trunc x) else None)"
| "static_cast_int PInf = None"
| "static_cast_int NInf = None"
| "static_cast_int NaN = None"

section \<open>The class SensorLDR\<close>

text \<open>The data members of \<open>SensorLDR\<close>, which both files declare alike.\<close>

record SensorLDR =
  path :: string
  R_CLARO :: fval
  R_ESCURO :: fval
  ADC_MAX :: fval
  R_FIXO :: fval

text \<open>The constructor stores the path; the other members take their default member
  initialisers \<open>146*1e3\<close>, \<open>5*1e6\<close>, \<open>4095.0\<close> and \<open>10000.0\<close>.\<close>

definition SensorLDR_new :: "string \<Rightarrow> SensorLDR" where
  "SensorLDR_new adcPath =
     \<lparr> path = adcPath,
       R_CLARO = Fin (146 * 1000),
       R_ESCURO = Fin (5 * 1000000),
       ADC_MAX = Fin 4095,
       R_FIXO = Fin 10000 \<rparr>"

text \<open>What the sysfs file at \<open>path\<close> gives when a cycle reads it: it cannot be opened; it
  opens but holds no token (it is empty or blank), so that \<open>file >> valor\<close> fails before the
  extraction and stores nothing; or it opens and \<open>file >> valor\<close> stores an integer (zero
  when the text is not a number).\<close>

datatype adc_file = Unreadable | Blank | Holding int

text \<open>What the process writes and does, in order.\<close>

datatype event =
    Cerr string
  | Perror string
  | Cout string
  | Sendto string
  | Sleep nat
  | Close_socket

subsection \<open>sensor\_ldr.cpp\<close>

text \<open>\<open>lerValor\<close> of sensor\_ldr.cpp does not test the stream.  When the file cannot be opened
  or holds no token, \<open>file >> valor\<close> stores nothing and the function returns the
  uninitialised \<open>valor\<close>: no value is defined, which is \<open>None\<close>.\<close>

definition lerValor_ldr :: "SensorLDR \<Rightarrow> adc_file \<Rightarrow> int option" where
  "lerValor_ldr s f =
     (case f of Unreadable \<Rightarrow> None | Blank \<Rightarrow> None | Holding valor \<Rightarrow> Some valor)"

text \<open>The body of \<open>lerLuminosidadePercentual\<close> of sensor\_ldr.cpp after
  \<open>int valor = lerValor()\<close>.\<close>

definition luminosidadePercentual_ldr :: "SensorLDR \<Rightarrow> int \<Rightarrow> int option" where
  "luminosidadePercentual_ldr s valor =
     (let r_ldr = fdiv (fmul (R_FIXO s) (fsub (ADC_MAX s) (float_of_int valor)))
                       (float_of_int valor);
          log_r_ldr = flog r_ldr;
          log_r_claro = flog (R_CLARO s);
          log_r_escuro = flog (R_ESCURO s)
      in if fgreater log_r_ldr log_r_escuro then Some 0
         else if fless log_r_ldr log_r_claro then Some 100
         else
           let porcentagem =
                 fdiv (fmul (Fin 100) (fsub log_r_escuro log_r_ldr))
                      (fsub log_r_escuro log_r_claro)
           in static_cast_int porcentagem)"

definition lerLuminosidadePercentual_ldr :: "SensorLDR \<Rightarrow> adc_file \<Rightarrow> int option" where
  "lerLuminosidadePercentual_ldr s f =
     (case lerValor_ldr s f of None \<Rightarrow> None
      | Some valor \<Rightarrow> luminosidadePercentual_ldr s valor)"

subsection \<open>clienteUDP\_sensor\_ldr.cpp\<close>

text \<open>\<open>lerValor\<close> of the UDP client initialises \<open>valor\<close> to zero, reads the file when it is
  open and writes a message to \<open>cerr\<close> otherwise.  An open file that holds no token leaves
  the initial zero in \<open>valor\<close>.\<close>

definition lerValor_udp :: "SensorLDR \<Rightarrow> adc_file \<Rightarrow> event list \<times> int" where
  "lerValor_udp s f =
     (case f of
        Holding valor \<Rightarrow> ([], valor)
      | Blank \<Rightarrow> ([], 0)
      | Unreadable \<Rightarrow> ([Cerr (''Erro: Nao foi possivel abrir o arquivo ADC em '' @ path s)], 0))"

text \<open>The body of \<open>lerLuminosidadePercentual\<close> of the UDP client after
  \<open>int valor = lerValor()\<close>.\<close>

definition luminosidadePercentual_udp :: "SensorLDR \<Rightarrow> int \<Rightarrow> int option" where
  "luminosidadePercentual_udp s valor =
     (let r_ldr = fdiv (fmul (R_FIXO s) (fsub (ADC_MAX s) (float_of_int valor)))
                       (float_of_int valor);
          log_r_ldr = flog r_ldr;
          log_r_claro = flog (R_CLARO s);
          log_r_escuro = flog (R_ESCURO s)
      in if fgreater log_r_ldr log_r_escuro then Some 0
         else if fless log_r_ldr log_r_claro then Some 100
         else
           let porcentagem =
                 fdiv (fmul (Fin 100) (fsub log_r_escuro log_r_ldr))
                      (fsub log_r_escuro log_r_claro)
           in static_cast_int porcentagem)"

definition lerLuminosidadePercentual_udp :: "SensorLDR \<Rightarrow> adc_file \<Rightarrow> event list \<times> int option" where
  "lerLuminosidadePercentual_udp s f =
     (let (evs, valor) = lerValor_udp s f in (evs, luminosidadePercentual_udp s valor))"

section \<open>Decimal text\<close>

text \<open>\<open>std::to_string(int)\<close> and the \<open>int\<close> inserter of \<open>ostream\<close> both write the decimal
  digits of the value, most significant first, after a minus sign when it is negative.\<close>

definition digit_char :: "nat \<Rightarrow> char" where
  "digit_char d = ''0123456789'' ! d"

fun digits10 :: "nat \<Rightarrow> string" where
  "digits10 n = (if n < 10 then [digit_char n] else digits10 (n div 10) @ [digit_char (n mod 10)])"

declare digits10.simps [simp del]

definition to_string :: "int \<Rightarrow> string" where
  "to_string i = (if i < 0 then CHR ''-'' # digits10 (nat (- i)) else digits10 (nat i))"

text \<open>\<open>c_str()\<close> points to the characters of the string followed by a null byte.\<close>

definition c_str :: "string \<Rightarrow> string" where
  "c_str s = s @ [CHR 0x00]"

text \<open>Inserting a \<open>const char *\<close> into a stream writes the bytes before the first null.\<close>

definition cout_c_string :: "string \<Rightarrow> string" where
  "cout_c_string message = takeWhile (\<lambda>c. c \<noteq> CHR 0x00) message"

text \<open>Reading decimal text back, to say what "the ASCII decimal representation" is: every
  character is one of \<open>0\<close> to \<open>9\<close> (codes 48 to 57), and the digits, weighted by powers of
  ten, give the number.\<close>

definition is_digit :: "char \<Rightarrow> bool" where
  "is_digit c = (48 \<le> (of_char c :: nat) \<and> (of_char c :: nat) \<le> 57)"

definition decimal_value :: "string \<Rightarrow> nat" where
  "decimal_value cs = foldl (\<lambda>a c. 10 * a + (of_char c - 48)) 0 cs"

section \<open>The main loops\<close>

text \<open>After a prefix of its cycles a process is still in its loop, has returned from \<open>main\<close>,
  or has run into undefined behaviour.\<close>

datatype status = InLoop | Returned int | Undefined

subsection \<open>sensor\_ldr.cpp\<close>

text \<open>One turn of \<open>while (true)\<close> in \<open>main\<close> of sensor\_ldr.cpp, given what the ADC file
  holds at that moment.\<close>

definition main_cycle_ldr :: "SensorLDR \<Rightarrow> adc_file \<Rightarrow> event list \<times> status" where
  "main_cycle_ldr ldr f =
     (case lerLuminosidadePercentual_ldr ldr f of
        None \<Rightarrow> ([], Undefined)
      | Some val \<Rightarrow> ([Cout (''Luminosidade: '' @ to_string val @ ''%''), Sleep 1], InLoop))"

fun main_loop_ldr :: "SensorLDR \<Rightarrow> adc_file list \<Rightarrow> event list \<times> status" where
  "main_loop_ldr ldr [] = ([], InLoop)"
| "main_loop_ldr ldr (f # fs) =
     (case main_cycle_ldr ldr f of
        (evs, InLoop) \<Rightarrow> (let (evs', st) = main_loop_ldr ldr fs in (evs @ evs', st))
      | (evs, st) \<Rightarrow> (evs, st))"

definition main_ldr :: "adc_file list \<Rightarrow> event list \<times> status" where
  "main_ldr fs = main_loop_ldr (SensorLDR_new ''/sys/bus/iio/devices/iio:device0/in_voltage13_raw'') fs"

subsection \<open>clienteUDP\_sensor\_ldr.cpp\<close>

definition SERVER_IP :: string where
  "SERVER_IP = ''192.168.42.10''"

definition PORT :: int where
  "PORT = 8080"

text \<open>What the environment answers in one cycle: the state of the ADC file and the value
  \<open>sendto\<close> returns (the number of bytes sent, or \<open>-1\<close>).\<close>

record cycle_env =
  adc :: adc_file
  sendto_result :: int

text \<open>One turn of \<open>while (true)\<close> in \<open>main\<close> of the UDP client.  \<open>sendto\<close> is given the pointer
  \<open>message\<close> and the length \<open>message_len\<close>: the datagram is the first \<open>message_len\<close> bytes
  at \<open>message\<close>.  The array \<open>buffer\<close> is cleared in every turn and never read.\<close>

definition main_cycle_udp :: "SensorLDR \<Rightarrow> cycle_env \<Rightarrow> event list \<times> status" where
  "main_cycle_udp ldr env =
     (case lerLuminosidadePercentual_udp ldr (adc env) of
        (evs, None) \<Rightarrow> (evs, Undefined)
      | (evs, Some val) \<Rightarrow>
          (let val_str = to_string val;
               message = c_str val_str;
               message_len = length val_str;
               bytes_sent = sendto_result env
           in (evs @ [Sendto (take message_len message)] @
               (if bytes_sent = - 1 then [Perror ''Erro ao enviar datagrama'']
                else [Cout (''Datagrama enviado ('' @ to_string bytes_sent @ '' bytes) para '' @
                            SERVER_IP @ '':'' @ to_string PORT),
                      Cout (''Luminosidade: '' @ cout_c_string message @ ''%''),
                      Sleep 1]),
               InLoop)))"

fun main_loop_udp :: "SensorLDR \<Rightarrow> cycle_env list \<Rightarrow> event list \<times> status" where
  "main_loop_udp ldr [] = ([], InLoop)"
| "main_loop_udp ldr (env # envs) =
     (case main_cycle_udp ldr env of
        (evs, InLoop) \<Rightarrow> (let (evs', st) = main_loop_udp ldr envs in (evs @ evs', st))
      | (evs, st) \<Rightarrow> (evs, st))"

text \<open>What the environment answers before the loop: the descriptor \<open>socket\<close> returns and
  the value \<open>inet_pton\<close> returns.  \<open>main\<close> returns \<open>-1\<close> when either fails and enters the
  loop otherwise; the statements after the loop are never reached.\<close>

record startup_env =
  socket_result :: int
  inet_pton_result :: int

definition main_udp :: "startup_env \<Rightarrow> cycle_env list \<Rightarrow> event list \<times> status" where
  "main_udp st envs =
     (let ldr = SensorLDR_new ''/sys/bus/iio/devices/iio:device0/in_voltage13_raw''
      in if socket_result st < 0
         then ([Perror ''Erro ao criar o socket UDP do cliente''], Returned (- 1))
         else if inet_pton_result st \<le> 0
         then ([Perror ''Endereco IP invalido/nao suportado'', Close_socket], Returned (- 1))
         else (let (evs, s) = main_loop_udp ldr envs
               in (Cout ''Socket UDP criado com sucesso.'' # evs, s)))"

text \<open>The datagrams of a trace, in the order they were handed to \<open>sendto\<close>.\<close>

fun datagrams :: "event list \<Rightarrow> string list" where
  "datagrams [] = []"
| "datagrams (Sendto p # evs) = p # datagrams evs"
| "datagrams (_ # evs) = datagrams evs"


section \<open>The model as the specification words it\<close>

text \<open>The value of the local variable \<open>r_ldr\<close>, which both files compute by the same
  expression \<open>R_FIXO * (ADC_MAX - valor) / valor\<close>.\<close>

definition r_ldr :: "SensorLDR \<Rightarrow> int \<Rightarrow> fval" where
  "r_ldr s valor =
     fdiv (fmul (R_FIXO s) (fsub (ADC_MAX s) (float_of_int valor))) (float_of_int valor)"

text \<open>The specification's formulas over the real numbers, with its calibration
  \<open>R_LIGHT = 146000\<close>, \<open>R_DARK = 5000000\<close>, \<open>ADC_max = 4095\<close>, \<open>R_fixed = 10000\<close>:
  \<open>R_sensor = R_fixed * (ADC_max - raw) / raw\<close> and
  \<open>pct = 100 * (log(R_DARK) - log(R_sensor)) / (log(R_DARK) - log(R_LIGHT))\<close>.\<close>

definition spec_R_sensor :: "int \<Rightarrow> real" where
  "spec_R_sensor raw = 10000 * (4095 - of_int raw) / of_int raw"

definition spec_pct :: "int \<Rightarrow> real" where
  "spec_pct raw = 100 * (ln 5000000 - ln (spec_R_sensor raw)) / (ln 5000000 - ln 146000)"

section \<open>Arithmetic of the interpolation\<close>

lemma trunc_range: "0 \<le> x \<Longrightarrow> x \<le> 100 \<Longrightarrow> 0 \<le> trunc x \<and> trunc x \<le> 100"
  by (simp add: trunc_def floor_le_iff)

lemma interp_range:
  fixes lc le x :: real
  assumes "lc < le" "lc \<le> x" "x \<le> le"
  shows "0 \<le> 100 * (le - x) / (le - lc)" and "100 * (le - x) / (le - lc) \<le> 100"
  using assms by (simp_all add: divide_le_eq)

lemma clamp_tail:
  assumes "lc < le"
  shows "(if fgreater l (Fin le) then Some 0
          else if fless l (Fin lc) then Some 100
          else static_cast_int (fdiv (fmul (Fin 100) (fsub (Fin le) l)) (fsub (Fin le) (Fin lc))))
       = (case l of
            Fin x \<Rightarrow> if le < x then Some 0 else if x < lc then Some 100
                     else Some (trunc (100 * (le - x) / (le - lc)))
          | PInf \<Rightarrow> Some 0 | NInf \<Rightarrow> Some 100 | NaN \<Rightarrow> None)"
proof (cases l)
  case (Fin x)
  show ?thesis
  proof (cases "le < x \<or> x < lc")
    case True
    then show ?thesis using Fin assms by (auto simp: fgreater_def)
  next
    case False
    then have b: "lc \<le> x" "x \<le> le" by auto
    from interp_range[OF assms b] trunc_range
    have "0 \<le> trunc (100 * (le - x) / (le - lc)) \<and> trunc (100 * (le - x) / (le - lc)) \<le> 100"
      by blast
    then show ?thesis using Fin assms False
      by (simp add: fgreater_def INT_MIN_def INT_MAX_def)
  qed
qed (simp_all add: fgreater_def)

lemma ln_consts: "ln (146000::real) < ln 5000000"
  by simp

lemma flog_consts:
  "flog (R_CLARO (SensorLDR_new p)) = Fin (ln 146000)"
  "flog (R_ESCURO (SensorLDR_new p)) = Fin (ln 5000000)"
  by (simp_all add: SensorLDR_new_def)

lemma lum_udp_char:
  "luminosidadePercentual_udp (SensorLDR_new p) valor =
     (case flog (r_ldr (SensorLDR_new p) valor) of
            Fin x \<Rightarrow> if ln 5000000 < x then Some 0 else if x < ln 146000 then Some 100
                     else Some (trunc (100 * (ln 5000000 - x) / (ln 5000000 - ln 146000)))
          | PInf \<Rightarrow> Some 0 | NInf \<Rightarrow> Some 100 | NaN \<Rightarrow> None)"
  unfolding luminosidadePercentual_udp_def Let_def r_ldr_def[symmetric] flog_consts
  by (rule clamp_tail[OF ln_consts])

lemma r_ldr_eval:
  "r_ldr (SensorLDR_new p) valor =
     (if valor = 0 then PInf else Fin (spec_R_sensor valor))"
  by (simp add: r_ldr_def SensorLDR_new_def float_of_int_def spec_R_sensor_def)


lemma lum_ldr_eq_udp: "luminosidadePercentual_ldr s valor = luminosidadePercentual_udp s valor"
  by (simp add: luminosidadePercentual_ldr_def luminosidadePercentual_udp_def)

lemma spec_R_sensor_pos: "0 < raw \<Longrightarrow> raw < 4095 \<Longrightarrow> 0 < spec_R_sensor raw"
  by (simp add: spec_R_sensor_def)

lemma spec_R_sensor_antimono:
  assumes "0 < raw1" "raw1 < raw2"
  shows "spec_R_sensor raw2 < spec_R_sensor raw1"
proof -
  have "spec_R_sensor raw = 40950000 / of_int raw - 10000" if "0 < raw" for raw
    using that by (simp add: spec_R_sensor_def field_simps)
  moreover have "(40950000::real) / of_int raw2 < 40950000 / of_int raw1"
    using assms by (simp add: frac_less2)
  ultimately show ?thesis using assms by simp
qed

lemma lum_udp_inner:
  assumes "0 < raw" "raw < 4095"
  shows "luminosidadePercentual_udp (SensorLDR_new p) raw =
     (if ln 5000000 < ln (spec_R_sensor raw) then Some 0
      else if ln (spec_R_sensor raw) < ln 146000 then Some 100
      else Some (trunc (100 * (ln 5000000 - ln (spec_R_sensor raw)) / (ln 5000000 - ln 146000))))"
  using assms spec_R_sensor_pos[OF assms]
  by (simp add: lum_udp_char r_ldr_eval)

lemma lum_udp_range:
  "luminosidadePercentual_udp (SensorLDR_new p) valor = Some v \<Longrightarrow> 0 \<le> v \<and> v \<le> 100"
  using interp_range[OF ln_consts] trunc_range
  by (auto simp: lum_udp_char split: fval.splits if_splits)

lemma lum_udp_defined:
  assumes "0 \<le> raw" "raw \<le> 4095"
  shows "\<exists>v. luminosidadePercentual_udp (SensorLDR_new p) raw = Some v"
proof -
  have "0 \<le> spec_R_sensor raw" using assms by (simp add: spec_R_sensor_def)
  then show ?thesis
    by (auto simp: lum_udp_char r_ldr_eval)
qed


lemma trunc_mono: "0 \<le> a \<Longrightarrow> a \<le> b \<Longrightarrow> trunc a \<le> trunc b"
  by (simp add: trunc_def floor_mono)

lemma clamp_antimono:
  fixes lc le x1 x2 :: real
  assumes "lc < le" "x2 \<le> x1"
  shows "(if le < x1 then 0 else if x1 < lc then 100 else trunc (100 * (le - x1) / (le - lc)))
       \<le> (if le < x2 then 0 else if x2 < lc then 100 else trunc (100 * (le - x2) / (le - lc)))"
proof (cases "le < x1")
  case True
  have "0 \<le> trunc (100 * (le - x2) / (le - lc))" if "lc \<le> x2" "x2 \<le> le"
    using interp_range(1)[OF assms(1) that] by (simp add: trunc_def)
  then show ?thesis using True by auto
next
  case hi: False
  show ?thesis
  proof (cases "x2 < lc")
    case True
    have "trunc (100 * (le - x1) / (le - lc)) \<le> 100" if "lc \<le> x1"
      using interp_range[OF assms(1) that] hi trunc_range by force
    then show ?thesis using True hi assms by auto
  next
    case False
    then have b: "lc \<le> x2" "x2 \<le> le" "lc \<le> x1" "x1 \<le> le" using hi assms by auto
    have "100 * (le - x1) / (le - lc) \<le> 100 * (le - x2) / (le - lc)"
      using assms by (simp add: divide_right_mono)
    then have "trunc (100 * (le - x1) / (le - lc)) \<le> trunc (100 * (le - x2) / (le - lc))"
      using interp_range(1)[OF assms(1) b(3,4)] by (rule trunc_mono[rotated])
    then show ?thesis using b by auto
  qed
qed

lemma lum_udp_mono:
  assumes "0 < raw1" "raw1 < raw2" "raw2 < 4095"
  shows "\<exists>v1 v2. luminosidadePercentual_udp (SensorLDR_new p) raw1 = Some v1
           \<and> luminosidadePercentual_udp (SensorLDR_new p) raw2 = Some v2 \<and> v1 \<le> v2"
proof -
  have r: "0 < raw1" "raw1 < 4095" "0 < raw2" "raw2 < 4095" using assms by auto
  have "spec_R_sensor raw2 < spec_R_sensor raw1" using assms by (simp add: spec_R_sensor_antimono)
  then have "ln (spec_R_sensor raw2) \<le> ln (spec_R_sensor raw1)"
    using spec_R_sensor_pos[OF r(3,4)] by simp
  from clamp_antimono[OF ln_consts this] show ?thesis
    unfolding lum_udp_inner[OF r(1,2)] lum_udp_inner[OF r(3,4)]
    by (auto split: if_splits)
qed

lemma digit_char_code: "d < 10 \<Longrightarrow> (of_char (digit_char d) :: nat) = 48 + d"
proof -
  assume "d < 10"
  then have "d \<in> {0, 1, 2, 3, 4, 5, 6, 7, 8, 9}" by auto
  then show ?thesis by (elim insertE emptyE) (simp_all add: digit_char_def)
qed

lemma digits10_is_digit: "list_all is_digit (digits10 n)"
proof (induction n rule: digits10.induct)
  case (1 n)
  show ?case
  proof (cases "n < 10")
    case True
    then show ?thesis by (simp add: digits10.simps[of n] is_digit_def digit_char_code)
  next
    case False
    then show ?thesis using "1"
      by (simp add: digits10.simps[of n] is_digit_def digit_char_code)
  qed
qed

lemma decimal_value_digits10: "decimal_value (digits10 n) = n"
proof (induction n rule: digits10.induct)
  case (1 n)
  show ?case
  proof (cases "n < 10")
    case True
    then show ?thesis by (simp add: digits10.simps[of n] decimal_value_def digit_char_code)
  next
    case False
    then have "decimal_value (digits10 (n div 10)) = n div 10" using "1" by simp
    then show ?thesis using False
      by (simp add: digits10.simps[of n] decimal_value_def digit_char_code)
  qed
qed

lemma digits10_nonempty: "digits10 n \<noteq> []"
  by (simp add: digits10.simps[of n])

lemma clamp_values:
  fixes lc le x :: real
  assumes "lc < le"
  shows "le \<le> x \<Longrightarrow>
           (if le < x then Some 0 else if x < lc then Some 100
            else Some (trunc (100 * (le - x) / (le - lc)))) = Some 0"
    and "x \<le> lc \<Longrightarrow>
           (if le < x then Some 0 else if x < lc then Some 100
            else Some (trunc (100 * (le - x) / (le - lc)))) = Some 100"
proof -
  have t: "trunc 0 = 0" "trunc 100 = 100" by (simp_all add: trunc_def)
  show "(if le < x then Some 0 else if x < lc then Some 100
         else Some (trunc (100 * (le - x) / (le - lc)))) = Some 0" if "le \<le> x"
  proof (cases "le < x")
    case False
    with that have "x = le" by simp
    then show ?thesis using assms t by simp
  qed simp
  show "(if le < x then Some 0 else if x < lc then Some 100
         else Some (trunc (100 * (le - x) / (le - lc)))) = Some 100" if "x \<le> lc"
  proof (cases "x < lc")
    case True
    then show ?thesis using assms by simp
  next
    case False
    with that have "x = lc" by simp
    moreover have "le - lc \<noteq> 0" using assms by simp
    moreover have "100 * d / d = 100" if "d \<noteq> 0" for d :: real using that by simp
    ultimately have "trunc (100 * (le - x) / (le - lc)) = 100" using t by metis
    then show ?thesis using False assms that by simp
  qed
qed

lemma lum_udp_clamp:
  "fge (flog (r_ldr (SensorLDR_new p) raw)) (Fin (ln 5000000)) \<Longrightarrow>
     luminosidadePercentual_udp (SensorLDR_new p) raw = Some 0"
  "fle (flog (r_ldr (SensorLDR_new p) raw)) (Fin (ln 146000)) \<Longrightarrow>
     luminosidadePercentual_udp (SensorLDR_new p) raw = Some 100"
proof -
  let ?l = "flog (r_ldr (SensorLDR_new p) raw)"
  show "luminosidadePercentual_udp (SensorLDR_new p) raw = Some 0"
    if "fge ?l (Fin (ln 5000000))"
  proof (cases ?l)
    case (Fin x)
    with that have "ln 5000000 \<le> x" by (simp add: fge_def)
    from clamp_values(1)[OF ln_consts this] show ?thesis
      by (simp only: lum_udp_char Fin fval.case)
  qed (use that in \<open>simp_all add: lum_udp_char fge_def\<close>)
  show "luminosidadePercentual_udp (SensorLDR_new p) raw = Some 100"
    if "fle ?l (Fin (ln 146000))"
  proof (cases ?l)
    case (Fin x)
    with that have "x \<le> ln 146000" by simp
    from clamp_values(2)[OF ln_consts this] show ?thesis
      by (simp only: lum_udp_char Fin fval.case)
  qed (use that in \<open>simp_all add: lum_udp_char\<close>)
qed

lemma clamps_exclusive:
  "lc < le \<Longrightarrow> \<not> (fgreater l (Fin le) \<and> fless l (Fin lc))"
  by (cases l) (auto simp: fgreater_def)

section \<open>Decimal text and the datagram\<close>

lemma to_string_nonneg:
  assumes "0 \<le> v"
  shows "list_all is_digit (to_string v)" and "int (decimal_value (to_string v)) = v"
    and "CHR 0x00 \<notin> set (to_string v)"
proof -
  show d: "list_all is_digit (to_string v)"
    using assms by (simp add: to_string_def digits10_is_digit)
  show "int (decimal_value (to_string v)) = v"
    using assms by (simp add: to_string_def decimal_value_digits10)
  have "\<not> is_digit (CHR 0x00)" by (simp add: is_digit_def)
  with d show "CHR 0x00 \<notin> set (to_string v)" by (auto simp: list_all_iff)
qed

lemma sendto_bytes: "take (length s) (c_str s) = s"
  by (simp add: c_str_def)

lemma cout_message: "CHR 0x00 \<notin> set s \<Longrightarrow> cout_c_string (c_str s) = s"
  by (auto simp: cout_c_string_def c_str_def takeWhile_tail)

section \<open>The cycles of the loops\<close>

lemma main_cycle_udp_datagram:
  assumes "luminosidadePercentual_udp ldr (snd (lerValor_udp ldr (adc env))) = Some val"
  shows "datagrams (fst (main_cycle_udp ldr env)) = [to_string val]"
    and "snd (main_cycle_udp ldr env) = InLoop"
  using assms
  by (auto simp: main_cycle_udp_def lerLuminosidadePercentual_udp_def lerValor_udp_def
      sendto_bytes Let_def split: adc_file.splits)

lemma main_cycle_udp_sleep:
  "Sleep n \<in> set (fst (main_cycle_udp ldr env)) \<Longrightarrow> sendto_result env \<noteq> - 1"
  by (auto simp: main_cycle_udp_def lerLuminosidadePercentual_udp_def lerValor_udp_def Let_def
      split: adc_file.splits option.splits if_splits)

lemma main_cycle_ldr_sleeps:
  "snd (main_cycle_ldr ldr f) = InLoop \<Longrightarrow> Sleep 1 \<in> set (fst (main_cycle_ldr ldr f))"
  by (auto simp: main_cycle_ldr_def split: option.splits)

lemma datagrams_append: "datagrams (xs @ ys) = datagrams xs @ datagrams ys"
  by (induction xs rule: datagrams.induct) simp_all

lemma main_cycle_udp_alive:
  assumes "adc env = Unreadable \<or> adc env = Blank \<or> (\<exists>v. adc env = Holding v \<and> 0 \<le> v \<and> v \<le> 4095)"
  shows "snd (main_cycle_udp (SensorLDR_new p) env) = InLoop"
    and "length (datagrams (fst (main_cycle_udp (SensorLDR_new p) env))) = 1"
proof -
  have "0 \<le> snd (lerValor_udp (SensorLDR_new p) (adc env))
      \<and> snd (lerValor_udp (SensorLDR_new p) (adc env)) \<le> 4095"
    using assms by (auto simp: lerValor_udp_def)
  then obtain val where
    "luminosidadePercentual_udp (SensorLDR_new p)
       (snd (lerValor_udp (SensorLDR_new p) (adc env))) = Some val"
    using lum_udp_defined by blast
  from main_cycle_udp_datagram[OF this]
  show "snd (main_cycle_udp (SensorLDR_new p) env) = InLoop"
    and "length (datagrams (fst (main_cycle_udp (SensorLDR_new p) env))) = 1"
    by simp_all
qed

lemma main_loop_udp_alive:
  assumes "\<forall>env \<in> set envs.
             adc env = Unreadable \<or> adc env = Blank \<or> (\<exists>v. adc env = Holding v \<and> 0 \<le> v \<and> v \<le> 4095)"
  shows "snd (main_loop_udp (SensorLDR_new p) envs) = InLoop
       \<and> length (datagrams (fst (main_loop_udp (SensorLDR_new p) envs))) = length envs"
  using assms
proof (induction envs)
  case Nil
  then show ?case by simp
next
  case (Cons env envs)
  then have e: "adc env = Unreadable \<or> adc env = Blank \<or> (\<exists>v. adc env = Holding v \<and> 0 \<le> v \<and> v \<le> 4095)"
    by simp
  obtain evs where c: "main_cycle_udp (SensorLDR_new p) env = (evs, InLoop)"
    using main_cycle_udp_alive(1)[OF e, of p] by (cases "main_cycle_udp (SensorLDR_new p) env") simp
  have "length (datagrams evs) = 1"
    using main_cycle_udp_alive(2)[OF e, of p] c by simp
  then show ?case using Cons c
    by (auto simp: datagrams_append split: prod.splits)
qed

text \<open>A cycle of the UDP client whose ADC file cannot be opened: the message on \<open>cerr\<close>,
  the datagram of the default sample, and the loop going on.\<close>

lemma udp_acquisition_failure:
  "lerValor_udp ldr Unreadable
     = ([Cerr (''Erro: Nao foi possivel abrir o arquivo ADC em '' @ path ldr)], 0)
   \<and> main_cycle_udp (SensorLDR_new p) \<lparr>adc = Unreadable, sendto_result = k\<rparr>
     = (Cerr (''Erro: Nao foi possivel abrir o arquivo ADC em '' @ p) # Sendto ''0'' #
         (if k = - 1 then [Perror ''Erro ao enviar datagrama'']
          else [Cout (''Datagrama enviado ('' @ to_string k @ '' bytes) para 192.168.42.10:8080''),
                Cout ''Luminosidade: 0%'', Sleep 1]),
        InLoop)
   \<and> main_loop_udp (SensorLDR_new p) (\<lparr>adc = Unreadable, sendto_result = k\<rparr> # envs)
     = (fst (main_cycle_udp (SensorLDR_new p) \<lparr>adc = Unreadable, sendto_result = k\<rparr>)
          @ fst (main_loop_udp (SensorLDR_new p) envs),
        snd (main_loop_udp (SensorLDR_new p) envs))"
proof -
  have s: "to_string 0 = ''0''" "to_string 8080 = ''8080''"
    by (simp_all add: to_string_def digits10.simps digit_char_def)
  have z: "luminosidadePercentual_udp (SensorLDR_new p) 0 = Some 0"
    by (simp add: lum_udp_char r_ldr_eval)
  have c: "main_cycle_udp (SensorLDR_new p) \<lparr>adc = Unreadable, sendto_result = k\<rparr>
     = (Cerr (''Erro: Nao foi possivel abrir o arquivo ADC em '' @ p) # Sendto ''0'' #
         (if k = - 1 then [Perror ''Erro ao enviar datagrama'']
          else [Cout (''Datagrama enviado ('' @ to_string k @ '' bytes) para 192.168.42.10:8080''),
                Cout ''Luminosidade: 0%'', Sleep 1]),
        InLoop)"
    by (simp add: main_cycle_udp_def lerLuminosidadePercentual_udp_def lerValor_udp_def z s
        c_str_def cout_c_string_def SERVER_IP_def PORT_def Let_def) (simp add: SensorLDR_new_def)
  have "lerValor_udp ldr Unreadable
     = ([Cerr (''Erro: Nao foi possivel abrir o arquivo ADC em '' @ path ldr)], 0)"
    by (simp add: lerValor_udp_def)
  moreover have "main_loop_udp (SensorLDR_new p) (\<lparr>adc = Unreadable, sendto_result = k\<rparr> # envs)
     = (fst (main_cycle_udp (SensorLDR_new p) \<lparr>adc = Unreadable, sendto_result = k\<rparr>)
          @ fst (main_loop_udp (SensorLDR_new p) envs),
        snd (main_loop_udp (SensorLDR_new p) envs))"
    by (simp add: c split: prod.splits)
  ultimately show ?thesis using c by blast
qed

section \<open>Properties of the specification\<close>

text \<open>
  C1.  In \<open>main\<close> of the UDP client a failed transmission is reported and the loop goes on;
  the specification adds that the next cycle starts after the fixed delay of one second whether
  or not the transmission succeeded.  The source calls \<open>sleep(1)\<close> only in the \<open>else\<close> branch of
  \<open>if (bytes_sent == -1)\<close>.  With \<open>sendto\<close> failing in two cycles in a row, the second
  datagram follows the first error report with no \<open>Sleep\<close> in between.
\<close>

theorem udp_send_failure_no_delay:
  "main_udp \<lparr>socket_result = 3, inet_pton_result = 1\<rparr>
     [\<lparr>adc = Holding 2000, sendto_result = - 1\<rparr>, \<lparr>adc = Holding 2000, sendto_result = - 1\<rparr>]
   = ([Cout ''Socket UDP criado com sucesso.'',
       Sendto ''100'', Perror ''Erro ao enviar datagrama'',
       Sendto ''100'', Perror ''Erro ao enviar datagrama''], InLoop)"
proof -
  have s: "to_string 100 = ''100''"
    by (simp add: to_string_def digits10.simps digit_char_def)
  have v: "luminosidadePercentual_udp (SensorLDR_new q) 2000 = Some 100" for q
    by (simp add: lum_udp_char r_ldr_eval spec_R_sensor_def)
  show ?thesis
    by (simp add: main_udp_def main_cycle_udp_def lerLuminosidadePercentual_udp_def
        lerValor_udp_def v s c_str_def Let_def)
qed

text \<open>
  C2.  For every raw value strictly between 0 and 4095 the conversion of both files returns
  an integer between 0 and 100; the witness takes the two boundary values 1 and 4094.
\<close>

theorem lum_in_range:
  assumes "0 < raw" "raw < 4095"
  shows "(\<exists>v. luminosidadePercentual_ldr (SensorLDR_new p) raw = Some v \<and> 0 \<le> v \<and> v \<le> 100)
       \<and> (\<exists>v. luminosidadePercentual_udp (SensorLDR_new p) raw = Some v \<and> 0 \<le> v \<and> v \<le> 100)"
proof -
  from assms obtain v where v: "luminosidadePercentual_udp (SensorLDR_new p) raw = Some v"
    using lum_udp_defined[of raw p] by auto
  with lum_udp_range[OF v] show ?thesis by (simp add: lum_ldr_eq_udp)
qed

theorem lum_in_range_witness:
  "(0::int) < 1 \<and> (1::int) < 4095 \<and> (0::int) < 4094 \<and> (4094::int) < 4095
   \<and> (\<exists>v. luminosidadePercentual_ldr (SensorLDR_new []) 1 = Some v \<and> 0 \<le> v \<and> v \<le> 100)
   \<and> (\<exists>v. luminosidadePercentual_udp (SensorLDR_new []) 1 = Some v \<and> 0 \<le> v \<and> v \<le> 100)
   \<and> (\<exists>v. luminosidadePercentual_ldr (SensorLDR_new []) 4094 = Some v \<and> 0 \<le> v \<and> v \<le> 100)
   \<and> (\<exists>v. luminosidadePercentual_udp (SensorLDR_new []) 4094 = Some v \<and> 0 \<le> v \<and> v \<le> 100)"
  using lum_in_range[of 1 "[]"] lum_in_range[of 4094 "[]"] by simp

text \<open>
  C3.  Whenever the logarithm of the computed resistance is greater than or equal to the
  logarithm of \<open>R_ESCURO\<close> the conversion returns 0, and whenever it is less than or equal to
  the logarithm of \<open>R_CLARO\<close> it returns 100.  The source tests with strict comparisons; at
  equality the interpolation gives the same 0 and 100.
\<close>

theorem lum_clamping:
  "(fge (flog (r_ldr (SensorLDR_new p) raw)) (flog (R_ESCURO (SensorLDR_new p))) \<longrightarrow>
      luminosidadePercentual_ldr (SensorLDR_new p) raw = Some 0
      \<and> luminosidadePercentual_udp (SensorLDR_new p) raw = Some 0)
   \<and> (fle (flog (r_ldr (SensorLDR_new p) raw)) (flog (R_CLARO (SensorLDR_new p))) \<longrightarrow>
      luminosidadePercentual_ldr (SensorLDR_new p) raw = Some 100
      \<and> luminosidadePercentual_udp (SensorLDR_new p) raw = Some 100)"
  unfolding flog_consts lum_ldr_eq_udp
  using lum_udp_clamp[of p raw] by blast

theorem lum_clamping_witness:
  "fge (flog (r_ldr (SensorLDR_new []) 5)) (flog (R_ESCURO (SensorLDR_new [])))
   \<and> luminosidadePercentual_ldr (SensorLDR_new []) 5 = Some 0
   \<and> luminosidadePercentual_udp (SensorLDR_new []) 5 = Some 0
   \<and> fle (flog (r_ldr (SensorLDR_new []) 2000)) (flog (R_CLARO (SensorLDR_new [])))
   \<and> luminosidadePercentual_ldr (SensorLDR_new []) 2000 = Some 100
   \<and> luminosidadePercentual_udp (SensorLDR_new []) 2000 = Some 100"
proof -
  have d: "fge (flog (r_ldr (SensorLDR_new []) 5)) (flog (R_ESCURO (SensorLDR_new [])))"
    by (simp add: r_ldr_eval spec_R_sensor_def flog_consts fge_def)
  have l: "fle (flog (r_ldr (SensorLDR_new []) 2000)) (flog (R_CLARO (SensorLDR_new [])))"
    by (simp add: r_ldr_eval spec_R_sensor_def flog_consts)
  show ?thesis using d l lum_clamping[of "[]" 5] lum_clamping[of "[]" 2000] by blast
qed

text \<open>
  C4.  At the raw value 0 the division by zero gives plus infinity and the conversion returns
  0; at the raw value 4095 the resistance is zero, its logarithm is minus infinity and the
  conversion returns 100.  Both results are defined integers.
\<close>

theorem lum_edge_cases:
  "r_ldr (SensorLDR_new p) 0 = PInf
   \<and> luminosidadePercentual_ldr (SensorLDR_new p) 0 = Some 0
   \<and> luminosidadePercentual_udp (SensorLDR_new p) 0 = Some 0
   \<and> flog (r_ldr (SensorLDR_new p) 4095) = NInf
   \<and> luminosidadePercentual_ldr (SensorLDR_new p) 4095 = Some 100
   \<and> luminosidadePercentual_udp (SensorLDR_new p) 4095 = Some 100"
  by (simp add: lum_ldr_eq_udp lum_udp_char r_ldr_eval spec_R_sensor_def)

text \<open>
  C5.  For raw values \<open>raw1 < raw2\<close>, both strictly between 0 and 4095, the computed
  resistance at \<open>raw2\<close> is smaller than at \<open>raw1\<close>, and the percentage at \<open>raw2\<close> is at
  least the percentage at \<open>raw1\<close>.
\<close>

theorem lum_monotone:
  assumes "0 < raw1" "raw1 < raw2" "raw2 < 4095"
  shows "fless (r_ldr (SensorLDR_new p) raw2) (r_ldr (SensorLDR_new p) raw1)
       \<and> (\<exists>v1 v2. luminosidadePercentual_ldr (SensorLDR_new p) raw1 = Some v1
             \<and> luminosidadePercentual_ldr (SensorLDR_new p) raw2 = Some v2 \<and> v1 \<le> v2)
       \<and> (\<exists>v1 v2. luminosidadePercentual_udp (SensorLDR_new p) raw1 = Some v1
             \<and> luminosidadePercentual_udp (SensorLDR_new p) raw2 = Some v2 \<and> v1 \<le> v2)"
proof -
  have "fless (r_ldr (SensorLDR_new p) raw2) (r_ldr (SensorLDR_new p) raw1)"
    using assms spec_R_sensor_antimono[of raw1 raw2] by (simp add: r_ldr_eval)
  then show ?thesis using lum_udp_mono[OF assms, of p] by (simp add: lum_ldr_eq_udp)
qed

theorem lum_monotone_witness:
  "(0::int) < 100 \<and> (100::int) < 200 \<and> (200::int) < 4095
   \<and> fless (r_ldr (SensorLDR_new []) 200) (r_ldr (SensorLDR_new []) 100)
   \<and> (\<exists>v1 v2. luminosidadePercentual_ldr (SensorLDR_new []) 100 = Some v1
         \<and> luminosidadePercentual_ldr (SensorLDR_new []) 200 = Some v2 \<and> v1 \<le> v2)
   \<and> (\<exists>v1 v2. luminosidadePercentual_udp (SensorLDR_new []) 100 = Some v1
         \<and> luminosidadePercentual_udp (SensorLDR_new []) 200 = Some v2 \<and> v1 \<le> v2)"
  using lum_monotone[of 100 200 "[]"] by simp

text \<open>
  C6.  For a raw value strictly between 0 and 4095 whose resistance lies strictly between the
  two references, the computed resistance is the specification's \<open>R_sensor\<close> and the result
  is the specification's interpolated percentage truncated toward zero.
\<close>

theorem lum_algorithm:
  assumes "0 < raw" "raw < 4095"
      and "146000 < spec_R_sensor raw" "spec_R_sensor raw < 5000000"
  shows "r_ldr (SensorLDR_new p) raw = Fin (spec_R_sensor raw)
       \<and> luminosidadePercentual_ldr (SensorLDR_new p) raw = Some (trunc (spec_pct raw))
       \<and> luminosidadePercentual_udp (SensorLDR_new p) raw = Some (trunc (spec_pct raw))"
  using assms
  by (simp add: lum_ldr_eq_udp lum_udp_inner r_ldr_eval spec_pct_def)

theorem lum_algorithm_witness:
  "(0::int) < 100 \<and> (100::int) < 4095
   \<and> 146000 < spec_R_sensor 100 \<and> spec_R_sensor 100 < 5000000
   \<and> r_ldr (SensorLDR_new []) 100 = Fin (spec_R_sensor 100)
   \<and> luminosidadePercentual_ldr (SensorLDR_new []) 100 = Some (trunc (spec_pct 100))
   \<and> luminosidadePercentual_udp (SensorLDR_new []) 100 = Some (trunc (spec_pct 100))"
proof -
  have h: "146000 < spec_R_sensor 100" "spec_R_sensor 100 < 5000000"
    by (simp_all add: spec_R_sensor_def)
  show ?thesis using h lum_algorithm[of 100 "[]", OF _ _ h] by simp
qed

text \<open>
  C7.  When the ADC file cannot be opened, the cycle is to report the failure, take a default
  sample in its place and go on to the next cycle.  \<open>lerValor\<close> of the UDP client does so.
  \<open>lerValor\<close> of sensor\_ldr.cpp does not test the stream: it reports nothing and returns
  the uninitialised \<open>valor\<close>.  In a run of five cycles whose third cannot open the file,
  the first two cycles print and sleep, and from the third on the behaviour is undefined.
\<close>

theorem ldr_acquisition_failure:
  "lerValor_ldr ldr Unreadable = None
   \<and> main_cycle_ldr ldr Unreadable = ([], Undefined)
   \<and> main_ldr [Holding 2000, Holding 2000, Unreadable, Holding 2000, Holding 2000]
     = ([Cout ''Luminosidade: 100%'', Sleep 1, Cout ''Luminosidade: 100%'', Sleep 1], Undefined)"
proof -
  have s: "to_string 100 = ''100''"
    by (simp add: to_string_def digits10.simps digit_char_def)
  have v: "luminosidadePercentual_ldr (SensorLDR_new q) 2000 = Some 100" for q
    by (simp add: lum_ldr_eq_udp lum_udp_char r_ldr_eval spec_R_sensor_def)
  have u: "main_cycle_ldr ldr Unreadable = ([], Undefined)" for ldr
    by (simp add: main_cycle_ldr_def lerLuminosidadePercentual_ldr_def lerValor_ldr_def)
  have h: "main_cycle_ldr (SensorLDR_new q) (Holding 2000)
             = ([Cout ''Luminosidade: 100%'', Sleep 1], InLoop)" for q
    by (simp add: main_cycle_ldr_def lerLuminosidadePercentual_ldr_def lerValor_ldr_def v s)
  have "lerValor_ldr ldr Unreadable = None"
    by (simp add: lerValor_ldr_def)
  moreover have "main_ldr [Holding 2000, Holding 2000, Unreadable, Holding 2000, Holding 2000]
     = ([Cout ''Luminosidade: 100%'', Sleep 1, Cout ''Luminosidade: 100%'', Sleep 1], Undefined)"
    by (simp add: main_ldr_def h u)
  ultimately show ?thesis using u by blast
qed

text \<open>
  C8.  In each cycle of the UDP client the datagram handed to \<open>sendto\<close> is exactly the decimal
  text of the computed percentage: decimal digits only, which read back as the percentage,
  with nothing before or after them and no null byte.
\<close>

theorem udp_transmitted_payload:
  assumes "luminosidadePercentual_udp (SensorLDR_new p)
             (snd (lerValor_udp (SensorLDR_new p) (adc env))) = Some val"
  shows "datagrams (fst (main_cycle_udp (SensorLDR_new p) env)) = [to_string val]
       \<and> list_all is_digit (to_string val)
       \<and> int (decimal_value (to_string val)) = val
       \<and> CHR 0x00 \<notin> set (to_string val)"
proof -
  have "0 \<le> val" using lum_udp_range[OF assms] by simp
  then show ?thesis
    using main_cycle_udp_datagram(1)[OF assms] to_string_nonneg[of val] by simp
qed

theorem udp_transmitted_payload_witness:
  "luminosidadePercentual_udp (SensorLDR_new [])
      (snd (lerValor_udp (SensorLDR_new []) (adc \<lparr>adc = Holding 2000, sendto_result = 3\<rparr>)))
     = Some 100
   \<and> datagrams (fst (main_cycle_udp (SensorLDR_new [])
        \<lparr>adc = Holding 2000, sendto_result = 3\<rparr>)) = [''100'']
   \<and> list_all is_digit ''100''
   \<and> int (decimal_value ''100'') = 100
   \<and> CHR 0x00 \<notin> set ''100''"
proof -
  have s: "to_string 100 = ''100''"
    by (simp add: to_string_def digits10.simps digit_char_def)
  have h: "luminosidadePercentual_udp (SensorLDR_new [])
      (snd (lerValor_udp (SensorLDR_new []) (adc \<lparr>adc = Holding 2000, sendto_result = 3\<rparr>)))
     = Some 100"
    by (simp add: lerValor_udp_def lum_udp_char r_ldr_eval spec_R_sensor_def)
  show ?thesis using h udp_transmitted_payload[OF h] unfolding s by blast
qed

text \<open>
  C9.  A constructed sensor has \<open>R_CLARO = 146000\<close> and \<open>R_ESCURO = 5000000\<close>, so
  \<open>R_CLARO < R_ESCURO\<close>, the denominator \<open>log_r_escuro - log_r_claro\<close> of the interpolation
  is a positive number, and no value takes both clamp branches.
\<close>

theorem calibration_invariant:
  "R_CLARO (SensorLDR_new p) = Fin 146000
   \<and> R_ESCURO (SensorLDR_new p) = Fin 5000000
   \<and> fless (R_CLARO (SensorLDR_new p)) (R_ESCURO (SensorLDR_new p))
   \<and> (\<exists>d. fsub (flog (R_ESCURO (SensorLDR_new p))) (flog (R_CLARO (SensorLDR_new p))) = Fin d
          \<and> 0 < d)
   \<and> \<not> (fgreater l (flog (R_ESCURO (SensorLDR_new p)))
         \<and> fless l (flog (R_CLARO (SensorLDR_new p))))"
proof -
  have "R_CLARO (SensorLDR_new p) = Fin 146000" "R_ESCURO (SensorLDR_new p) = Fin 5000000"
    by (simp_all add: SensorLDR_new_def)
  moreover have "fless (R_CLARO (SensorLDR_new p)) (R_ESCURO (SensorLDR_new p))"
    by (simp add: SensorLDR_new_def)
  moreover have "\<exists>d. fsub (flog (R_ESCURO (SensorLDR_new p))) (flog (R_CLARO (SensorLDR_new p)))
                   = Fin d \<and> 0 < d"
    by (simp add: flog_consts)
  moreover have "\<not> (fgreater l (flog (R_ESCURO (SensorLDR_new p)))
                   \<and> fless l (flog (R_CLARO (SensorLDR_new p))))"
    unfolding flog_consts by (rule clamps_exclusive[OF ln_consts])
  ultimately show ?thesis by blast
qed

theorem calibration_invariant_witness:
  "fgreater PInf (flog (R_ESCURO (SensorLDR_new [])))
   \<and> \<not> fless PInf (flog (R_CLARO (SensorLDR_new [])))"
  using calibration_invariant[of "[]" PInf] by (simp add: flog_consts fgreater_def)

text \<open>
  C10.  The conversions of sensor\_ldr.cpp and of the UDP client return the same result on
  every raw value, and so do the two methods whenever the ADC file can be read.
\<close>

theorem lum_variants_agree:
  "luminosidadePercentual_ldr s raw = luminosidadePercentual_udp s raw
   \<and> lerLuminosidadePercentual_ldr s (Holding raw)
       = snd (lerLuminosidadePercentual_udp s (Holding raw))"
  by (simp add: luminosidadePercentual_ldr_def luminosidadePercentual_udp_def
      lerLuminosidadePercentual_ldr_def lerLuminosidadePercentual_udp_def
      lerValor_ldr_def lerValor_udp_def)

end
